theory Spec2Isabelle
  imports Complex_Main "HOL-Library.Sublist" "HOL-Library.Multiset"
begin

section \<open>Python values and exceptions\<close>

text \<open>
  The scoring and debate code of ProtoML (\<^verbatim>\<open>helper/paper_scorer.py\<close>,
  \<^verbatim>\<open>helper/agent_debate.py\<close>) handles what \<^verbatim>\<open>json.loads\<close> returns by duck typing:
  the parsed value is indexed, multiplied and compared without any check of its shape.
  The model therefore keeps a parsed value as a \<open>json\<close> tree, and every operation of
  Python that can raise on such a value returns \<open>pyexc + 'a\<close>, \<open>Inl\<close> being the
  exception raised.

  Numbers are exact reals: the rounding of Python's binary floats, their overflow, and the
  values \<^verbatim>\<open>NaN\<close> and \<^verbatim>\<open>Infinity\<close> that \<^verbatim>\<open>json.loads\<close> accepts are not modelled (the
  weights of \<^verbatim>\<open>config.SCORING_WEIGHTS\<close> are all 0.25, for which products and sums of
  integer scores are exact in binary floating point as well). A Python \<^verbatim>\<open>str\<close> is a
  \<open>string\<close>, one \<open>char\<close> per code point below 256.
\<close>

datatype json =
    JNull
  | JBool bool
  | JNum real
  | JStr string
  | JArr "json list"
  | JObj "(string \<times> json) list"

text \<open>
  The exceptions of this code are all subclasses of \<^verbatim>\<open>Exception\<close>, which is what the
  handlers catch. Each carries the text that \<^verbatim>\<open>str(e)\<close> gives; for a \<^verbatim>\<open>KeyError\<close> that
  is the quoted key. The texts of the interpreter's own messages are abbreviated.
\<close>

datatype pyexc =
    KeyError string
  | TypeError string
  | AttributeError string
  | IndexError string
  | ValueError string
  | JSONDecodeError string
  | APIError string

fun str_exc :: "pyexc \<Rightarrow> string" where
  "str_exc (KeyError k) = [CHR 0x27] @ k @ [CHR 0x27]"
| "str_exc (TypeError m) = m"
| "str_exc (AttributeError m) = m"
| "str_exc (IndexError m) = m"
| "str_exc (ValueError m) = m"
| "str_exc (JSONDecodeError m) = m"
| "str_exc (APIError m) = m"

definition exc_bind :: "pyexc + 'a \<Rightarrow> ('a \<Rightarrow> pyexc + 'b) \<Rightarrow> pyexc + 'b" where
  "exc_bind m f = (case m of Inl e \<Rightarrow> Inl e | Inr v \<Rightarrow> f v)"

text \<open>\<^verbatim>\<open>v[k]\<close> for a string key \<open>k\<close>: only a dict can be indexed by a string.\<close>

fun py_getitem :: "json \<Rightarrow> string \<Rightarrow> pyexc + json" where
  "py_getitem (JObj kvs) k =
     (case map_of kvs k of None \<Rightarrow> Inl (KeyError k) | Some v \<Rightarrow> Inr v)"
| "py_getitem (JArr xs) k = Inl (TypeError ''list indices must be integers or slices, not str'')"
| "py_getitem (JStr s) k = Inl (TypeError ''string indices must be integers, not str'')"
| "py_getitem (JNum x) k = Inl (TypeError ''number is not subscriptable'')"
| "py_getitem (JBool b) k = Inl (TypeError ''bool is not subscriptable'')"
| "py_getitem JNull k = Inl (TypeError ''NoneType is not subscriptable'')"

text \<open>
  \<^verbatim>\<open>v[:n]\<close>: strings and lists are sliced, everything else raises (a dict with
  \<^verbatim>\<open>TypeError\<close> before Python 3.12 and with \<^verbatim>\<open>KeyError\<close> from it on; the model has the
  former).
\<close>

fun py_slice_to :: "json \<Rightarrow> nat \<Rightarrow> pyexc + json" where
  "py_slice_to (JStr s) n = Inr (JStr (take n s))"
| "py_slice_to (JArr xs) n = Inr (JArr (take n xs))"
| "py_slice_to (JObj kvs) n = Inl (TypeError ''unhashable type: slice'')"
| "py_slice_to (JNum x) n = Inl (TypeError ''number is not subscriptable'')"
| "py_slice_to (JBool b) n = Inl (TypeError ''bool is not subscriptable'')"
| "py_slice_to JNull n = Inl (TypeError ''NoneType is not subscriptable'')"

text \<open>
  \<^verbatim>\<open>v * weight\<close> with a float weight: numbers multiply, \<^verbatim>\<open>True\<close> and \<^verbatim>\<open>False\<close> count as
  1 and 0, and strings, lists, dicts and \<^verbatim>\<open>None\<close> raise \<^verbatim>\<open>TypeError\<close>.
\<close>

fun py_mul_float :: "json \<Rightarrow> real \<Rightarrow> pyexc + real" where
  "py_mul_float (JNum x) w = Inr (x * w)"
| "py_mul_float (JBool b) w = Inr ((if b then 1 else 0) * w)"
| "py_mul_float (JStr s) w = Inl (TypeError ''cannot multiply sequence by non-int of type float'')"
| "py_mul_float (JArr xs) w = Inl (TypeError ''cannot multiply sequence by non-int of type float'')"
| "py_mul_float (JObj kvs) w = Inl (TypeError ''unsupported operand type(s) for *: dict and float'')"
| "py_mul_float JNull w = Inl (TypeError ''unsupported operand type(s) for *: NoneType and float'')"

text \<open>\<^verbatim>\<open>xs[i]\<close> on a list, for an index that is not negative.\<close>

definition py_index :: "'a list \<Rightarrow> nat \<Rightarrow> pyexc + 'a" where
  "py_index xs i = (if i < length xs then Inr (xs ! i) else Inl (IndexError ''list index out of range''))"

section \<open>String operations\<close>

text \<open>\<^verbatim>\<open>sub in s\<close>.\<close>

fun py_contains :: "string \<Rightarrow> string \<Rightarrow> bool" where
  "py_contains sub [] = (sub = [])"
| "py_contains sub (c # cs) = (prefix sub (c # cs) \<or> py_contains sub cs)"

text \<open>
  \<^verbatim>\<open>s.split(sep)\<close>: the pieces between the occurrences of \<open>sep\<close>, found from the left
  and not overlapping; an empty separator raises \<^verbatim>\<open>ValueError\<close>.
\<close>

fun split_from :: "string \<Rightarrow> string \<Rightarrow> string \<Rightarrow> string list" where
  "split_from sep cur s =
     (if s = [] then [cur]
      else if sep \<noteq> [] \<and> prefix sep s then cur # split_from sep [] (drop (length sep) s)
      else split_from sep (cur @ [hd s]) (tl s))"

declare split_from.simps [simp del]

definition py_split :: "string \<Rightarrow> string \<Rightarrow> pyexc + string list" where
  "py_split s sep = (if sep = [] then Inl (ValueError ''empty separator'') else Inr (split_from sep [] s))"

text \<open>\<^verbatim>\<open>s.strip()\<close>: the white space of \<^verbatim>\<open>str.isspace\<close> among the code points below 256.\<close>

definition is_space :: "char \<Rightarrow> bool" where
  "is_space c = (c \<in> set [CHR 0x09, CHR 0x0A, CHR 0x0B, CHR 0x0C, CHR 0x0D,
                            CHR 0x1C, CHR 0x1D, CHR 0x1E, CHR 0x1F, CHR 0x20, CHR 0x85, CHR 0xA0])"

definition py_strip :: "string \<Rightarrow> string" where
  "py_strip s = rev (dropWhile is_space (rev (dropWhile is_space s)))"

text \<open>
  The text of a reply is \<^verbatim>\<open>None\<close> or a string. \<^verbatim>\<open>None.strip()\<close> raises
  \<^verbatim>\<open>AttributeError\<close>.
\<close>

definition strip_content :: "string option \<Rightarrow> pyexc + string" where
  "strip_content content =
     (case content of
        None \<Rightarrow> Inl (AttributeError ''NoneType object has no attribute strip'')
      | Some s \<Rightarrow> Inr (py_strip s))"

text \<open>
  The block under the comment \<^verbatim>\<open># Extract JSON\<close>, the same in \<^verbatim>\<open>score_with_groq\<close>
  (lines 73-77) and \<^verbatim>\<open>_make_final_decision\<close> (lines 315-319):
  \<^verbatim>\<open>
  if "```json" in content:
      content = content.split("```json")[1].split("```")[0].strip()
  elif "```" in content:
      content = content.split("```")[1].split("```")[0].strip()
  \<close>
  On \<^verbatim>\<open>None\<close> the test \<^verbatim>\<open>in\<close> raises \<^verbatim>\<open>TypeError\<close>.
\<close>

definition between_fences :: "string \<Rightarrow> string \<Rightarrow> pyexc + string" where
  "between_fences opening content =
     exc_bind (py_split content opening) (\<lambda>parts.
     exc_bind (py_index parts 1) (\<lambda>body.
     exc_bind (py_split body ''```'') (\<lambda>parts'.
     exc_bind (py_index parts' 0) (\<lambda>inner. Inr (py_strip inner)))))"

definition extract_json :: "string option \<Rightarrow> pyexc + string" where
  "extract_json content =
     (case content of
        None \<Rightarrow> Inl (TypeError ''argument of type NoneType is not iterable'')
      | Some c \<Rightarrow>
          if py_contains ''```json'' c then between_fences ''```json'' c
          else if py_contains ''```'' c then between_fences ''```'' c
          else Inr c)"

section \<open>The outside world\<close>

text \<open>
  What the code cannot decide is a parameter. \<open>json_loads\<close> is \<^verbatim>\<open>json.loads\<close>, raising
  \<^verbatim>\<open>JSONDecodeError\<close> on a text that is not JSON. \<open>str_other\<close> is what an f-string prints
  for a parsed value that is not a string. \<open>groq_reply n\<close> and \<open>gemini_reply n\<close> are the
  outcomes of the \<open>n\<close>-th call (from 0) to the Groq and to the Gemini service in a run:
  the call raises, or it returns a reply whose text (\<^verbatim>\<open>choices[0].message.content\<close>,
  \<^verbatim>\<open>response.text\<close>) is a string or \<^verbatim>\<open>None\<close>. A service whose answer depends on the prompt
  is one such sequence of outcomes for each run, so quantifying over the sequences covers
  every behaviour of the services; the prompt texts themselves are not modelled, only the
  lookups in them that can raise.

  The state counts the calls made to each service and holds
  \<^verbatim>\<open>AgentDebate.conversation_context\<close>.
\<close>

record env =
  json_loads :: "string \<Rightarrow> pyexc + json"
  str_other :: "json \<Rightarrow> string"
  groq_reply :: "nat \<Rightarrow> pyexc + string option"
  gemini_reply :: "nat \<Rightarrow> pyexc + string option"

record world =
  groq_calls :: nat
  gemini_calls :: nat
  conversation_context :: "(string \<times> string \<times> nat) list"

type_synonym 'a run = "world \<Rightarrow> (pyexc + 'a) \<times> world"

definition ret :: "'a \<Rightarrow> 'a run" where
  "ret v w = (Inr v, w)"

definition lift :: "pyexc + 'a \<Rightarrow> 'a run" where
  "lift r w = (r, w)"

definition run_bind :: "'a run \<Rightarrow> ('a \<Rightarrow> 'b run) \<Rightarrow> 'b run" where
  "run_bind m f w = (case m w of (Inl e, w') \<Rightarrow> (Inl e, w') | (Inr v, w') \<Rightarrow> f v w')"

text \<open>
  \<^verbatim>\<open>groq_client.chat.completions.create(...)\<close> and
  \<^verbatim>\<open>gemini_client.models.generate_content(...)\<close>: one call each, counted whether it
  returns or raises.
\<close>

definition groq_create :: "env \<Rightarrow> world \<Rightarrow> (pyexc + string option) \<times> world" where
  "groq_create env w = (groq_reply env (groq_calls w), w\<lparr>groq_calls := groq_calls w + 1\<rparr>)"

definition gemini_generate_content :: "env \<Rightarrow> world \<Rightarrow> (pyexc + string option) \<times> world" where
  "gemini_generate_content env w =
     (gemini_reply env (gemini_calls w), w\<lparr>gemini_calls := gemini_calls w + 1\<rparr>)"

text \<open>What an f-string prints for \<^verbatim>\<open>{v}\<close>: a string is printed as it is.\<close>

definition fmt :: "env \<Rightarrow> json \<Rightarrow> string" where
  "fmt env v = (case v of JStr s \<Rightarrow> s | _ \<Rightarrow> str_other env v)"

section \<open>Papers\<close>

text \<open>
  A paper is the dict built in \<^verbatim>\<open>ArxivFetcher.fetch_papers\<close>. \<^verbatim>\<open>score_with_groq\<close> adds the
  keys \<^verbatim>\<open>groq_scores\<close> and \<^verbatim>\<open>groq_total_score\<close> to a copy, \<^verbatim>\<open>score_with_gemini\<close> adds
  \<^verbatim>\<open>gemini_scores\<close> and \<^verbatim>\<open>gemini_total_score\<close>. The score set is stored as parsed.
\<close>

record paper =
  title :: string
  abstract :: string
  authors :: "string list"
  pdf_url :: string
  arxiv_id :: string
  published :: string
  category :: string
  primary_category :: string

record groq_scored = paper +
  groq_scores :: json
  groq_total_score :: real

record gemini_scored = paper +
  gemini_scores :: json
  gemini_total_score :: real

section \<open>config.SCORING_WEIGHTS and the weighted score\<close>

definition SCORING_WEIGHTS :: "(string \<times> real) list" where
  "SCORING_WEIGHTS =
     [(''problem_relevance'', 0.25),
      (''dataset_quality'', 0.25),
      (''model_novelty'', 0.25),
      (''real_world_impact'', 0.25)]"

text \<open>
  \<^verbatim>\<open>sum(scores[criterion] * weight for criterion, weight in self.scoring_weights.items())\<close>:
  the items in the dict's order, added up from 0; the first lookup or product that raises
  ends the sum.
\<close>

fun sum_items :: "json \<Rightarrow> (string \<times> real) list \<Rightarrow> real \<Rightarrow> pyexc + real" where
  "sum_items scores [] acc = Inr acc"
| "sum_items scores ((criterion, weight) # items) acc =
     (case py_getitem scores criterion of
        Inl e \<Rightarrow> Inl e
      | Inr v \<Rightarrow>
          (case py_mul_float v weight of
             Inl e \<Rightarrow> Inl e
           | Inr x \<Rightarrow> sum_items scores items (acc + x)))"

definition weighted_score :: "json \<Rightarrow> (string \<times> real) list \<Rightarrow> pyexc + real" where
  "weighted_score scores weights = sum_items scores weights 0"

section \<open>PaperScorer\<close>

text \<open>
  The entry appended in the handler of both scoring loops
  (\<^verbatim>\<open>paper_scorer.py\<close> lines 93-106 and 172-185): every criterion 5, the reasoning
  naming the exception, the total 5.0.
\<close>

definition default_scores :: "pyexc \<Rightarrow> json" where
  "default_scores e =
     JObj [(''problem_relevance'', JNum 5),
           (''dataset_quality'', JNum 5),
           (''model_novelty'', JNum 5),
           (''real_world_impact'', JNum 5),
           (''reasoning'', JStr (''Error during scoring: '' @ str_exc e)),
           (''overall_impression'', JStr ''Unable to score'')]"

text \<open>
  The body of the \<^verbatim>\<open>try\<close> in \<^verbatim>\<open>score_with_groq\<close> after the call (lines 70-85): the
  content, the fence, \<^verbatim>\<open>json.loads\<close>, the weighted score.
\<close>

definition groq_try_score :: "env \<Rightarrow> pyexc + string option \<Rightarrow> pyexc + json \<times> real" where
  "groq_try_score env reply =
     exc_bind reply (\<lambda>content.
     exc_bind (extract_json content) (\<lambda>content'.
     exc_bind (json_loads env content') (\<lambda>scores.
     exc_bind (weighted_score scores SCORING_WEIGHTS) (\<lambda>weighted. Inr (scores, weighted)))))"

text \<open>One round of the loop of \<^verbatim>\<open>score_with_groq\<close> (lines 54-106), as a function of the paper and of the outcome of its call.\<close>

definition groq_entry :: "env \<Rightarrow> paper \<Rightarrow> pyexc + string option \<Rightarrow> groq_scored" where
  "groq_entry env p reply =
     (case groq_try_score env reply of
        Inr (scores, weighted) \<Rightarrow>
          paper.extend p \<lparr>groq_scores = scores, groq_total_score = weighted\<rparr>
      | Inl e \<Rightarrow>
          paper.extend p \<lparr>groq_scores = default_scores e, groq_total_score = 5\<rparr>)"

fun groq_loop :: "env \<Rightarrow> paper list \<Rightarrow> groq_scored list \<Rightarrow> world \<Rightarrow> groq_scored list \<times> world" where
  "groq_loop env [] scored_papers w = (scored_papers, w)"
| "groq_loop env (p # ps) scored_papers w =
     (case groq_create env w of
        (reply, w') \<Rightarrow> groq_loop env ps (scored_papers @ [groq_entry env p reply]) w')"

text \<open>
  \<^verbatim>\<open>scored_papers.sort(key=lambda x: x['groq_total_score'], reverse=True)\<close>: Python's sort
  is stable, also with \<^verbatim>\<open>reverse=True\<close>; the stable sort on the negated key is the same
  list.
\<close>

definition score_with_groq :: "env \<Rightarrow> paper list \<Rightarrow> world \<Rightarrow> groq_scored list \<times> world" where
  "score_with_groq env papers w =
     (case groq_loop env papers [] w of
        (scored_papers, w') \<Rightarrow> (sort_key (\<lambda>x. - groq_total_score x) scored_papers, w'))"

text \<open>
  The body of the \<^verbatim>\<open>try\<close> in \<^verbatim>\<open>score_with_gemini\<close> after the call (lines 150-164):
  \<^verbatim>\<open>response.text.strip()\<close>, then \<^verbatim>\<open>json.loads\<close> (its \<^verbatim>\<open>JSONDecodeError\<close> is raised
  again and reaches the outer handler), then the weighted score. No fence is stripped here.
\<close>

definition gemini_try_score :: "env \<Rightarrow> pyexc + string option \<Rightarrow> pyexc + json \<times> real" where
  "gemini_try_score env reply =
     exc_bind reply (\<lambda>text.
     exc_bind (strip_content text) (\<lambda>content.
     exc_bind (json_loads env content) (\<lambda>scores.
     exc_bind (weighted_score scores SCORING_WEIGHTS) (\<lambda>weighted. Inr (scores, weighted)))))"




section \<open>AgentDebate\<close>

text \<open>
  An entry of \<^verbatim>\<open>debate_history\<close> is a dict with the keys \<^verbatim>\<open>agent\<close>, \<^verbatim>\<open>round\<close> and
  \<^verbatim>\<open>argument\<close> (rounds 1 and 2) or \<^verbatim>\<open>agent\<close>, \<^verbatim>\<open>round\<close> and \<^verbatim>\<open>decision\<close> (round 3). The
  decision is whatever \<^verbatim>\<open>_make_final_decision\<close> returned.
\<close>

datatype debate_turn =
    Argument (agent: string) (turn_round: nat) (argument: string)
  | Decision (agent: string) (turn_round: nat) (decision: json)

text \<open>
  The dict returned by \<^verbatim>\<open>select_final_paper\<close> is a copy of \<^verbatim>\<open>groq_top\<close> or of
  \<^verbatim>\<open>gemini_top\<close> with the keys \<^verbatim>\<open>selection_method\<close> and \<^verbatim>\<open>debate_history\<close> added, and
  \<^verbatim>\<open>final_decision\<close> after a debate only (\<open>None\<close>: the key is absent).
\<close>

datatype chosen = GroqChoice groq_scored | GeminiChoice gemini_scored

record selection =
  selected_paper :: chosen
  selection_method :: string
  debate_history :: "debate_turn list"
  final_decision :: "json option"

definition add_to_context :: "string \<Rightarrow> string \<Rightarrow> nat \<Rightarrow> unit run" where
  "add_to_context role content round_num w =
     (Inr (), w\<lparr>conversation_context := conversation_context w @ [(role, content, round_num)]\<rparr>)"

definition clear_context :: "unit run" where
  "clear_context w = (Inr (), w\<lparr>conversation_context := []\<rparr>)"

text \<open>
  \<^verbatim>\<open>_groq_present_case\<close> (lines 128-170). The prompt is built before the \<^verbatim>\<open>try\<close> and reads
  \<^verbatim>\<open>groq_choice['groq_scores']['reasoning']\<close>, so a score set without that key raises
  here. Inside the \<^verbatim>\<open>try\<close> there is one call and \<^verbatim>\<open>content.strip()\<close>; the handler
  makes no call and returns the fixed sentence followed by the reasoning.
\<close>

definition groq_present_case :: "env \<Rightarrow> groq_scored \<Rightarrow> gemini_scored \<Rightarrow> string run" where
  "groq_present_case env groq_choice gemini_choice =
     run_bind (lift (py_getitem (groq_scores groq_choice) ''reasoning'')) (\<lambda>analysis.
     (\<lambda>w. case groq_create env w of
        (reply, w') \<Rightarrow>
          (case exc_bind reply strip_content of
             Inr text \<Rightarrow> (Inr text, w')
           | Inl e \<Rightarrow>
               (exc_bind (py_getitem (groq_scores groq_choice) ''reasoning'') (\<lambda>r.
                  Inr (''I believe my paper is superior due to '' @ fmt env r)), w'))))"

text \<open>\<^verbatim>\<open>_gemini_present_case\<close> (lines 172-233), of the same shape.\<close>

definition gemini_present_case :: "env \<Rightarrow> gemini_scored \<Rightarrow> groq_scored \<Rightarrow> string \<Rightarrow> string run" where
  "gemini_present_case env gemini_choice groq_choice groq_argument =
     run_bind (lift (py_getitem (gemini_scores gemini_choice) ''reasoning'')) (\<lambda>analysis.
     (\<lambda>w. case gemini_generate_content env w of
        (reply, w') \<Rightarrow>
          (case exc_bind reply strip_content of
             Inr text \<Rightarrow> (Inr text, w')
           | Inl e \<Rightarrow>
               (exc_bind (py_getitem (gemini_scores gemini_choice) ''reasoning'') (\<lambda>r.
                  Inr (''My paper is superior because '' @ fmt env r)), w'))))"

text \<open>
  \<^verbatim>\<open>_make_final_decision\<close> (lines 235-337). The prompt reads titles, totals and abstracts
  only. The \<^verbatim>\<open>try\<close> holds the call, the fence, and \<^verbatim>\<open>json.loads\<close>, whose value is
  returned as it is; the handler compares the two totals with \<^verbatim>\<open>>=\<close>.
\<close>

definition adjudicate_try :: "env \<Rightarrow> pyexc + string option \<Rightarrow> pyexc + json" where
  "adjudicate_try env reply =
     exc_bind reply (\<lambda>content.
     exc_bind (extract_json content) (\<lambda>content'.
     json_loads env content'))"

definition score_fallback :: "groq_scored \<Rightarrow> gemini_scored \<Rightarrow> json" where
  "score_fallback groq_choice gemini_choice =
     (if groq_total_score groq_choice \<ge> gemini_total_score gemini_choice then
        JObj [(''selected'', JStr ''groq''),
              (''reasoning'', JStr ''Selected based on higher score after debate error.''),
              (''confidence'', JStr ''medium'')]
      else
        JObj [(''selected'', JStr ''gemini''),
              (''reasoning'', JStr ''Selected based on higher score after debate error.''),
              (''confidence'', JStr ''medium'')])"

definition make_final_decision ::
  "env \<Rightarrow> groq_scored \<Rightarrow> gemini_scored \<Rightarrow> string \<Rightarrow> string \<Rightarrow> json run" where
  "make_final_decision env groq_choice gemini_choice groq_argument gemini_argument w =
     (case gemini_generate_content env w of
        (reply, w') \<Rightarrow>
          (case adjudicate_try env reply of
             Inr parsed \<Rightarrow> (Inr parsed, w')
           | Inl e \<Rightarrow> (Inr (score_fallback groq_choice gemini_choice), w')))"

text \<open>
  \<^verbatim>\<open>select_final_paper\<close> (lines 43-126). The two \<^verbatim>\<open>print\<close>s of lines 57 and 61 read
  \<^verbatim>\<open>['reasoning'][:100]\<close> of both score sets before the identifiers are compared. After
  the debate, \<^verbatim>\<open>final_decision['selected']\<close> (line 112) and
  \<^verbatim>\<open>final_decision['reasoning'][:200]\<close> (line 120) are read outside any \<^verbatim>\<open>try\<close>.
\<close>

definition select_final_paper :: "env \<Rightarrow> groq_scored list \<Rightarrow> gemini_scored list \<Rightarrow> selection run" where
  "select_final_paper env groq_papers gemini_papers =
     run_bind (lift (py_index groq_papers 0)) (\<lambda>groq_top.
     run_bind (lift (py_index gemini_papers 0)) (\<lambda>gemini_top.
     run_bind (lift (exc_bind (py_getitem (groq_scores groq_top) ''reasoning'')
                       (\<lambda>r. py_slice_to r 100))) (\<lambda>_.
     run_bind (lift (exc_bind (py_getitem (gemini_scores gemini_top) ''reasoning'')
                       (\<lambda>r. py_slice_to r 100))) (\<lambda>_.
     if arxiv_id groq_top = arxiv_id gemini_top then
       ret \<lparr>selected_paper = GroqChoice groq_top,
            selection_method = ''unanimous'',
            debate_history = [],
            final_decision = None\<rparr>
     else
       run_bind clear_context (\<lambda>_.
       run_bind (groq_present_case env groq_top gemini_top) (\<lambda>groq_argument.
       run_bind (add_to_context ''Agent A (Groq)'' groq_argument 1) (\<lambda>_.
       run_bind (gemini_present_case env gemini_top groq_top groq_argument) (\<lambda>gemini_argument.
       run_bind (add_to_context ''Agent B (Gemini)'' gemini_argument 2) (\<lambda>_.
       run_bind (make_final_decision env groq_top gemini_top groq_argument gemini_argument)
         (\<lambda>final.
       run_bind (lift (py_getitem final ''selected'')) (\<lambda>selected.
       run_bind (lift (exc_bind (py_getitem final ''reasoning'')
                         (\<lambda>r. py_slice_to r 200))) (\<lambda>_.
       ret \<lparr>selected_paper =
              (if selected = JStr ''groq'' then GroqChoice groq_top
               else GeminiChoice gemini_top),
            selection_method = ''debate'',
            debate_history =
              [Argument ''Groq'' 1 groq_argument,
               Argument ''Gemini'' 2 gemini_argument,
               Decision ''Consensus'' 3 final],
            final_decision = Some final\<rparr>))))))))))))"

section \<open>Notions used in the properties\<close>





text \<open>
  A score set as the data model has it carries a reasoning text; \<open>reasoning_of\<close> reads
  it. \<^verbatim>\<open>select_final_paper\<close> and the two \<^verbatim>\<open>_present_case\<close> functions read
  \<^verbatim>\<open>['reasoning']\<close> in their \<^verbatim>\<open>print\<close>s and prompts, outside any \<^verbatim>\<open>try\<close>, so the
  properties of the debate are stated for score sets that have it.
\<close>

definition has_reasoning :: "json \<Rightarrow> bool" where
  "has_reasoning scores =
     (case py_getitem scores ''reasoning'' of Inr (JStr s) \<Rightarrow> True | _ \<Rightarrow> False)"

definition reasoning_of :: "json \<Rightarrow> string" where
  "reasoning_of scores =
     (case py_getitem scores ''reasoning'' of Inr (JStr s) \<Rightarrow> s | _ \<Rightarrow> [])"

text \<open>
  The three rounds of a debate that starts in the state \<open>w\<close>, in terms of the outcomes
  of the calls: round 1 is the next Groq call, round 2 the next Gemini call, the
  adjudication the Gemini call after that.
\<close>

definition round1_argument :: "env \<Rightarrow> groq_scored \<Rightarrow> world \<Rightarrow> string" where
  "round1_argument env g w =
     (case exc_bind (groq_reply env (groq_calls w)) strip_content of
        Inr text \<Rightarrow> text
      | Inl e \<Rightarrow> ''I believe my paper is superior due to '' @ reasoning_of (groq_scores g))"

definition round2_argument :: "env \<Rightarrow> gemini_scored \<Rightarrow> world \<Rightarrow> string" where
  "round2_argument env m w =
     (case exc_bind (gemini_reply env (gemini_calls w)) strip_content of
        Inr text \<Rightarrow> text
      | Inl e \<Rightarrow> ''My paper is superior because '' @ reasoning_of (gemini_scores m))"

definition round3_decision :: "env \<Rightarrow> groq_scored \<Rightarrow> gemini_scored \<Rightarrow> world \<Rightarrow> json" where
  "round3_decision env g m w =
     (case adjudicate_try env (gemini_reply env (gemini_calls w + 1)) of
        Inr parsed \<Rightarrow> parsed
      | Inl e \<Rightarrow> score_fallback g m)"

definition after_debate :: "env \<Rightarrow> groq_scored \<Rightarrow> gemini_scored \<Rightarrow> world \<Rightarrow> world" where
  "after_debate env g m w =
     w\<lparr>groq_calls := groq_calls w + 1,
       gemini_calls := gemini_calls w + 2,
       conversation_context :=
         [(''Agent A (Groq)'', round1_argument env g w, 1),
          (''Agent B (Gemini)'', round2_argument env m w, 2)]\<rparr>"

text \<open>
  The decision of the handler of \<^verbatim>\<open>_make_final_decision\<close> for the named side, as the
  dict literal of lines 327-331 and 333-337.
\<close>

definition fallback_for :: "string \<Rightarrow> json" where
  "fallback_for side =
     JObj [(''selected'', JStr side),
           (''reasoning'', JStr ''Selected based on higher score after debate error.''),
           (''confidence'', JStr ''medium'')]"

text \<open>
  The text that \<^verbatim>\<open>json.loads\<close> is given for a reply text: what the block
  \<^verbatim>\<open># Extract JSON\<close> leaves.
\<close>

definition fence_stripped :: "string \<Rightarrow> string" where
  "fence_stripped c =
     (if py_contains ''```json'' c then
        py_strip (hd (split_from ''```'' [] (split_from ''```json'' [] c ! 1)))
      else if py_contains ''```'' c then
        py_strip (hd (split_from ''```'' [] (split_from ''```'' [] c ! 1)))
      else c)"

text \<open>
  The Decision in the words of the specification: exactly the three fields
  \<^verbatim>\<open>selected\<close>, \<^verbatim>\<open>reasoning\<close> and \<^verbatim>\<open>confidence\<close>, with \<^verbatim>\<open>selected\<close> one of \<^verbatim>\<open>groq\<close> and
  \<^verbatim>\<open>gemini\<close>.
\<close>

definition spec_decision :: "json \<Rightarrow> bool" where
  "spec_decision d =
     (case d of
        JObj kvs \<Rightarrow>
          distinct (map fst kvs)
          \<and> set (map fst kvs) = {''selected'', ''reasoning'', ''confidence''}
          \<and> (map_of kvs ''selected'' = Some (JStr ''groq'')
               \<or> map_of kvs ''selected'' = Some (JStr ''gemini''))
      | _ \<Rightarrow> False)"

section \<open>Sample data\<close>

text \<open>
  Papers, score sets and reply texts for the examples. \<open>sample_loads\<close> is
  \<^verbatim>\<open>json.loads\<close> on the few texts the examples use, with the values Python gives for
  them; no example applies it to another text. Every reasoning in the examples is a string,
  so \<open>str_other\<close> is never reached.
\<close>

definition paper_a :: paper where
  "paper_a = \<lparr>title = ''Paper A'', abstract = ''About A'', authors = [''Ann''],
              pdf_url = ''https://arxiv.org/pdf/2501.00001v1'', arxiv_id = ''2501.00001v1'',
              published = ''2025-01-01'', category = ''cs.LG'', primary_category = ''cs.LG''\<rparr>"

definition paper_b :: paper where
  "paper_b = \<lparr>title = ''Paper B'', abstract = ''About B'', authors = [''Bob''],
              pdf_url = ''https://arxiv.org/pdf/2501.00002v1'', arxiv_id = ''2501.00002v1'',
              published = ''2025-01-02'', category = ''cs.CV'', primary_category = ''cs.CV''\<rparr>"

definition paper_c :: paper where
  "paper_c = \<lparr>title = ''Paper C'', abstract = ''About C'', authors = [''Cyd''],
              pdf_url = ''https://arxiv.org/pdf/2501.00003v1'', arxiv_id = ''2501.00003v1'',
              published = ''2025-01-03'', category = ''cs.CL'', primary_category = ''cs.CL''\<rparr>"

definition sample_scores :: json where
  "sample_scores =
     JObj [(''problem_relevance'', JNum 8),
           (''dataset_quality'', JNum 6),
           (''model_novelty'', JNum 9),
           (''real_world_impact'', JNum 7),
           (''reasoning'', JStr ''solid method''),
           (''overall_impression'', JStr ''good'')]"

definition scores_b :: json where
  "scores_b =
     JObj [(''problem_relevance'', JNum 7),
           (''dataset_quality'', JNum 7),
           (''model_novelty'', JNum 6),
           (''real_world_impact'', JNum 6),
           (''reasoning'', JStr ''clear benchmark''),
           (''overall_impression'', JStr ''fine'')]"

definition scores_text :: string where
  \<open>scores_text = ''{"problem_relevance": 8, "dataset_quality": 6, "model_novelty": 9, "real_world_impact": 7, "reasoning": "solid method", "overall_impression": "good"}''\<close>

definition decision_text :: "string \<Rightarrow> string \<Rightarrow> string" where
  \<open>decision_text key label =
     ''{"'' @ key @ ''": "'' @ label @ ''", "reasoning": "Paper A is easier to build.", "confidence": "high"}''\<close>

definition decision_json :: "string \<Rightarrow> string \<Rightarrow> json" where
  "decision_json key label =
     JObj [(key, JStr label),
           (''reasoning'', JStr ''Paper A is easier to build.''),
           (''confidence'', JStr ''high'')]"

definition sample_loads :: "string \<Rightarrow> pyexc + json" where
  "sample_loads s =
     (if s = scores_text then Inr sample_scores
      else if s = ''{}'' then Inr (JObj [])
      else if s = decision_text ''selected'' ''groq'' then Inr (decision_json ''selected'' ''groq'')
      else if s = decision_text ''selected'' ''gemini'' then Inr (decision_json ''selected'' ''gemini'')
      else if s = decision_text ''selected'' ''Groq'' then Inr (decision_json ''selected'' ''Groq'')
      else if s = decision_text ''winner'' ''groq'' then Inr (decision_json ''winner'' ''groq'')
      else Inl (JSONDecodeError ''Expecting value: line 1 column 1 (char 0)''))"

definition fenced_text :: string where
  "fenced_text = ''```json'' @ [CHR 0x0A] @ scores_text @ [CHR 0x0A] @ ''```''"

definition fenced :: "string \<Rightarrow> string" where
  "fenced body = ''Here is my decision:'' @ [CHR 0x0A] @ ''```json'' @ [CHR 0x0A] @ body
                   @ [CHR 0x0A] @ ''```''"

definition world0 :: world where
  "world0 = \<lparr>groq_calls = 0, gemini_calls = 0, conversation_context = []\<rparr>"

text \<open>Scored papers: the total is the weighted score of the score set.\<close>

definition groq_a :: groq_scored where
  "groq_a = paper.extend paper_a \<lparr>groq_scores = sample_scores, groq_total_score = 7.5\<rparr>"

definition groq_b_low :: groq_scored where
  "groq_b_low = paper.extend paper_b \<lparr>groq_scores = scores_b, groq_total_score = 6.5\<rparr>"


definition gemini_b :: gemini_scored where
  "gemini_b = paper.extend paper_b \<lparr>gemini_scores = scores_b, gemini_total_score = 6.5\<rparr>"

definition gemini_b_tied :: gemini_scored where
  "gemini_b_tied = paper.extend paper_b \<lparr>gemini_scores = sample_scores, gemini_total_score = 7.5\<rparr>"

definition gemini_a_high :: gemini_scored where
  "gemini_a_high = paper.extend paper_a \<lparr>gemini_scores = sample_scores, gemini_total_score = 7.5\<rparr>"

text \<open>
  A scoring run in which the first Groq call raises and the second answers with a fenced
  score set, and in which the first Gemini answer is not JSON and the second has no
  criteria.
\<close>

definition scoring_env :: env where
  "scoring_env =
     \<lparr>json_loads = sample_loads,
      str_other = (\<lambda>v. ''''),
      groq_reply = (\<lambda>n. if n = 0 then Inl (APIError ''Connection error.'')
                          else Inr (Some fenced_text)),
      gemini_reply = (\<lambda>n. if n = 0 then Inr (Some ''I cannot score this paper.'')
                            else Inr (Some '' {} ''))\<rparr>"

text \<open>Every call of both services raises.\<close>

definition failing_env :: env where
  "failing_env =
     \<lparr>json_loads = sample_loads,
      str_other = (\<lambda>v. ''''),
      groq_reply = (\<lambda>n. Inl (APIError ''Connection error.'')),
      gemini_reply = (\<lambda>n. Inl (APIError ''503 UNAVAILABLE''))\<rparr>"

text \<open>
  Both debaters answer, and the arbiter answers with the given text.
\<close>

definition talking_env :: "string option \<Rightarrow> env" where
  "talking_env arbiter_text =
     \<lparr>json_loads = sample_loads,
      str_other = (\<lambda>v. ''''),
      groq_reply = (\<lambda>n. Inr (Some ''Paper A is easier to build.'')),
      gemini_reply = (\<lambda>n. if n = 0 then Inr (Some '' Paper B teaches more. '')
                            else Inr arbiter_text)\<rparr>"

section \<open>Verified properties\<close>

subsection \<open>The weighted score\<close>




subsection \<open>The scoring runs\<close>












text \<open>
  When the body of the \<^verbatim>\<open>try\<close> fails: the call raises, or the text is \<^verbatim>\<open>None\<close> or badly
  fenced, or \<^verbatim>\<open>json.loads\<close> raises, or the parsed value lacks a criterion or holds one
  that cannot be multiplied.
\<close>

lemma groq_try_score_fails_iff:
  "groq_try_score env reply = Inl e \<longleftrightarrow>
     reply = Inl e
     \<or> (\<exists>content. reply = Inr content \<and> extract_json content = Inl e)
     \<or> (\<exists>content text. reply = Inr content \<and> extract_json content = Inr text
           \<and> json_loads env text = Inl e)
     \<or> (\<exists>content text scores. reply = Inr content \<and> extract_json content = Inr text
           \<and> json_loads env text = Inr scores
           \<and> weighted_score scores SCORING_WEIGHTS = Inl e)"
  by (auto simp: groq_try_score_def exc_bind_def split: sum.splits)

lemma gemini_try_score_fails_iff:
  "gemini_try_score env reply = Inl e \<longleftrightarrow>
     reply = Inl e
     \<or> (\<exists>content. reply = Inr content \<and> strip_content content = Inl e)
     \<or> (\<exists>content text. reply = Inr content \<and> strip_content content = Inr text
           \<and> json_loads env text = Inl e)
     \<or> (\<exists>content text scores. reply = Inr content \<and> strip_content content = Inr text
           \<and> json_loads env text = Inr scores
           \<and> weighted_score scores SCORING_WEIGHTS = Inl e)"
  by (auto simp: gemini_try_score_def exc_bind_def split: sum.splits)








text \<open>
  A run over three papers: the first call raises, the other two answer with the same score
  set. The two papers of total 7.5 come first, in the order of the batch; the paper
  with the default total 5.0 is last.
\<close>

lemma sample_run_order:
  "fst (score_with_groq scoring_env [paper_a, paper_b, paper_c] world0) =
     [paper.extend paper_b \<lparr>groq_scores = sample_scores, groq_total_score = 15 / 2\<rparr>,
      paper.extend paper_c \<lparr>groq_scores = sample_scores, groq_total_score = 15 / 2\<rparr>,
      paper.extend paper_a
        \<lparr>groq_scores = default_scores (APIError ''Connection error.''),
         groq_total_score = 5\<rparr>]"
  by code_simp

subsection \<open>The debate\<close>

lemma has_reasoning_getitem:
  "has_reasoning scores \<Longrightarrow> py_getitem scores ''reasoning'' = Inr (JStr (reasoning_of scores))"
  by (auto simp: has_reasoning_def reasoning_of_def split: sum.splits json.splits)

text \<open>
  Without it nothing is selected: the \<^verbatim>\<open>print\<close> of line 57 raises before the identifiers
  are compared.
\<close>

lemma select_needs_reasoning:
  "py_getitem (groq_scores g) ''reasoning'' = Inl e \<Longrightarrow>
   select_final_paper env (g # gs) (m # ms) w = (Inl e, w)"
  by (simp add: select_final_paper_def run_bind_def lift_def py_index_def exc_bind_def)

lemma groq_present_case_eq:
  assumes "has_reasoning (groq_scores g)"
  shows "groq_present_case env g m w =
           (Inr (round1_argument env g w), w\<lparr>groq_calls := groq_calls w + 1\<rparr>)"
  using has_reasoning_getitem [OF assms]
  by (simp add: groq_present_case_def run_bind_def lift_def groq_create_def
        round1_argument_def exc_bind_def fmt_def split: sum.splits)

lemma gemini_present_case_eq:
  assumes "has_reasoning (gemini_scores m)"
  shows "gemini_present_case env m g a w =
           (Inr (round2_argument env m w), w\<lparr>gemini_calls := gemini_calls w + 1\<rparr>)"
  using has_reasoning_getitem [OF assms]
  by (simp add: gemini_present_case_def run_bind_def lift_def gemini_generate_content_def
        round2_argument_def exc_bind_def fmt_def split: sum.splits)

lemma make_final_decision_eq:
  "make_final_decision env g m a b w =
     (Inr (case adjudicate_try env (gemini_reply env (gemini_calls w)) of
             Inr parsed \<Rightarrow> parsed
           | Inl e \<Rightarrow> score_fallback g m),
      w\<lparr>gemini_calls := gemini_calls w + 1\<rparr>)"
  by (simp add: make_final_decision_def gemini_generate_content_def split: sum.splits)

text \<open>
  With two top papers of different identifiers and score sets that carry a reasoning
  text, the three rounds always run; what remains is the reading of the decision at lines
  112 and 120.
\<close>

lemma select_final_paper_debate:
  assumes "has_reasoning (groq_scores g)" and "has_reasoning (gemini_scores m)"
    and "arxiv_id g \<noteq> arxiv_id m"
  shows "select_final_paper env (g # gs) (m # ms) w =
     (case py_getitem (round3_decision env g m w) ''selected'' of
        Inl e \<Rightarrow> (Inl e, after_debate env g m w)
      | Inr selected \<Rightarrow>
          (case exc_bind (py_getitem (round3_decision env g m w) ''reasoning'')
                  (\<lambda>r. py_slice_to r 200) of
             Inl e \<Rightarrow> (Inl e, after_debate env g m w)
           | Inr shown \<Rightarrow>
               (Inr \<lparr>selected_paper =
                       (if selected = JStr ''groq'' then GroqChoice g else GeminiChoice m),
                     selection_method = ''debate'',
                     debate_history =
                       [Argument ''Groq'' 1 (round1_argument env g w),
                        Argument ''Gemini'' 2 (round2_argument env m w),
                        Decision ''Consensus'' 3 (round3_decision env g m w)],
                     final_decision = Some (round3_decision env g m w)\<rparr>,
                after_debate env g m w)))"
proof -
  have r1: "py_getitem (groq_scores g) ''reasoning'' = Inr (JStr (reasoning_of (groq_scores g)))"
    by (rule has_reasoning_getitem [OF assms(1)])
  have r2: "py_getitem (gemini_scores m) ''reasoning'' = Inr (JStr (reasoning_of (gemini_scores m)))"
    by (rule has_reasoning_getitem [OF assms(2)])
  show ?thesis
    using assms(3)
    by (simp add: select_final_paper_def run_bind_def lift_def ret_def py_index_def
          exc_bind_def r1 r2 clear_context_def add_to_context_def
          groq_present_case_eq [OF assms(1)] gemini_present_case_eq [OF assms(2)]
          make_final_decision_eq round3_decision_def after_debate_def
          round1_argument_def round2_argument_def
          split: sum.splits)
qed



text \<open>
  When the body of the \<^verbatim>\<open>try\<close> of \<^verbatim>\<open>_make_final_decision\<close> fails: the call raises, or
  the text is \<^verbatim>\<open>None\<close>, or \<^verbatim>\<open>json.loads\<close> raises on the text left by the fence.
\<close>

lemma adjudicate_try_fails_iff:
  "adjudicate_try env reply = Inl e \<longleftrightarrow>
     reply = Inl e
     \<or> (\<exists>content. reply = Inr content \<and> extract_json content = Inl e)
     \<or> (\<exists>content text. reply = Inr content \<and> extract_json content = Inr text
           \<and> json_loads env text = Inl e)"
  by (auto simp: adjudicate_try_def exc_bind_def split: sum.splits)

lemma fallback_selected: "py_getitem (fallback_for side) ''selected'' = Inr (JStr side)"
  by (simp add: fallback_for_def)

lemma fallback_reasoning:
  "exc_bind (py_getitem (fallback_for side) ''reasoning'') (\<lambda>r. py_slice_to r 200)
     = Inr (JStr ''Selected based on higher score after debate error.'')"
  by (simp add: fallback_for_def exc_bind_def)

lemma score_fallback_eq:
  "score_fallback g m =
     fallback_for (if gemini_total_score m \<le> groq_total_score g then ''groq'' else ''gemini'')"
  by (simp add: score_fallback_def fallback_for_def)

lemma select_after_failed_adjudication:
  assumes "has_reasoning (groq_scores g)" and "has_reasoning (gemini_scores m)"
    and "arxiv_id g \<noteq> arxiv_id m"
    and "adjudicate_try env (gemini_reply env (gemini_calls w + 1)) = Inl e"
  shows "select_final_paper env (g # gs) (m # ms) w =
     (Inr \<lparr>selected_paper =
             (if gemini_total_score m \<le> groq_total_score g then GroqChoice g
              else GeminiChoice m),
           selection_method = ''debate'',
           debate_history =
             [Argument ''Groq'' 1 (round1_argument env g w),
              Argument ''Gemini'' 2 (round2_argument env m w),
              Decision ''Consensus'' 3
                (fallback_for
                   (if gemini_total_score m \<le> groq_total_score g then ''groq''
                    else ''gemini''))],
           final_decision =
             Some (fallback_for
                     (if gemini_total_score m \<le> groq_total_score g then ''groq''
                      else ''gemini''))\<rparr>,
      after_debate env g m w)"
proof -
  have d: "round3_decision env g m w =
             fallback_for (if gemini_total_score m \<le> groq_total_score g then ''groq''
                           else ''gemini'')"
    using assms(4) by (simp add: round3_decision_def score_fallback_eq)
  show ?thesis
    unfolding select_final_paper_debate [OF assms(1) assms(2) assms(3)] d
    by (simp add: fallback_selected fallback_reasoning)
qed

text \<open>
  C2. Two top papers of different identifiers (their score sets carrying a reasoning
  text), the adjudication failing (the call raises or its payload cannot be parsed), and
  one total strictly greater than the other: then
  \<^verbatim>\<open>select_final_paper\<close> returns, the decision it attaches (the one
  \<^verbatim>\<open>_make_final_decision\<close> returned) has \<^verbatim>\<open>selected\<close> naming the side with the greater
  total, the confidence \<^verbatim>\<open>medium\<close> and the fixed reasoning
  \<^verbatim>\<open>Selected based on higher score after debate error.\<close>, and the paper returned is that
  side's top paper.
\<close>

theorem fallback_selects_higher_score:
  assumes "has_reasoning (groq_scores g)" and "has_reasoning (gemini_scores m)"
    and "arxiv_id g \<noteq> arxiv_id m"
    and "adjudicate_try env (gemini_reply env (gemini_calls w + 1)) = Inl e"
    and "groq_total_score g \<noteq> gemini_total_score m"
  shows "\<exists>r. select_final_paper env (g # gs) (m # ms) w = (Inr r, after_debate env g m w)
           \<and> final_decision r =
               Some (JObj [(''selected'',
                            JStr (if gemini_total_score m < groq_total_score g then ''groq''
                                  else ''gemini'')),
                           (''reasoning'',
                            JStr ''Selected based on higher score after debate error.''),
                           (''confidence'', JStr ''medium'')])
           \<and> debate_history r ! 2 = Decision ''Consensus'' 3 (the (final_decision r))
           \<and> selected_paper r =
               (if gemini_total_score m < groq_total_score g then GroqChoice g
                else GeminiChoice m)"
proof -
  have lt: "gemini_total_score m \<le> groq_total_score g
              \<longleftrightarrow> gemini_total_score m < groq_total_score g"
    using assms(5) by auto
  show ?thesis
    unfolding select_after_failed_adjudication [OF assms(1) assms(2) assms(3) assms(4)]
    by (simp add: lt fallback_for_def)
qed

theorem fallback_selects_higher_score_witness:
  "(\<exists>r. select_final_paper failing_env [groq_a] [gemini_b] world0
           = (Inr r, after_debate failing_env groq_a gemini_b world0)
        \<and> final_decision r =
            Some (JObj [(''selected'', JStr ''groq''),
                        (''reasoning'',
                         JStr ''Selected based on higher score after debate error.''),
                        (''confidence'', JStr ''medium'')])
        \<and> selected_paper r = GroqChoice groq_a)
   \<and> (\<exists>r. select_final_paper failing_env [groq_b_low] [gemini_a_high] world0
           = (Inr r, after_debate failing_env groq_b_low gemini_a_high world0)
        \<and> final_decision r =
            Some (JObj [(''selected'', JStr ''gemini''),
                        (''reasoning'',
                         JStr ''Selected based on higher score after debate error.''),
                        (''confidence'', JStr ''medium'')])
        \<and> selected_paper r = GeminiChoice gemini_a_high)"
proof -
  have a1: "has_reasoning (groq_scores groq_a)" by code_simp
  have a2: "has_reasoning (gemini_scores gemini_b)" by code_simp
  have a3: "arxiv_id groq_a \<noteq> arxiv_id gemini_b" by code_simp
  have a4: "adjudicate_try failing_env (gemini_reply failing_env (gemini_calls world0 + 1))
              = Inl (APIError ''503 UNAVAILABLE'')" by code_simp
  have a5: "groq_total_score groq_a \<noteq> gemini_total_score gemini_b" by code_simp
  have a6: "gemini_total_score gemini_b < groq_total_score groq_a" by code_simp
  have b1: "has_reasoning (groq_scores groq_b_low)" by code_simp
  have b2: "has_reasoning (gemini_scores gemini_a_high)" by code_simp
  have b3: "arxiv_id groq_b_low \<noteq> arxiv_id gemini_a_high" by code_simp
  have b5: "groq_total_score groq_b_low \<noteq> gemini_total_score gemini_a_high" by code_simp
  have b6: "\<not> gemini_total_score gemini_a_high < groq_total_score groq_b_low" by code_simp
  from fallback_selects_higher_score [OF a1 a2 a3 a4 a5, of "[]" "[]"] a6
  have x: "\<exists>r. select_final_paper failing_env [groq_a] [gemini_b] world0
           = (Inr r, after_debate failing_env groq_a gemini_b world0)
        \<and> final_decision r =
            Some (JObj [(''selected'', JStr ''groq''),
                        (''reasoning'',
                         JStr ''Selected based on higher score after debate error.''),
                        (''confidence'', JStr ''medium'')])
        \<and> selected_paper r = GroqChoice groq_a"
    by auto
  from fallback_selects_higher_score [OF b1 b2 b3 a4 b5, of "[]" "[]"] b6
  have y: "\<exists>r. select_final_paper failing_env [groq_b_low] [gemini_a_high] world0
           = (Inr r, after_debate failing_env groq_b_low gemini_a_high world0)
        \<and> final_decision r =
            Some (JObj [(''selected'', JStr ''gemini''),
                        (''reasoning'',
                         JStr ''Selected based on higher score after debate error.''),
                        (''confidence'', JStr ''medium'')])
        \<and> selected_paper r = GeminiChoice gemini_a_high"
    by auto
  from x y show ?thesis by blast
qed

text \<open>
  C7. When the adjudication fails and the two totals are equal, the handler's \<^verbatim>\<open>>=\<close>
  holds: the decision \<^verbatim>\<open>_make_final_decision\<close> returns names \<^verbatim>\<open>groq\<close>, and the paper
  \<^verbatim>\<open>select_final_paper\<close> returns is Groq's top paper (for top papers of different
  identifiers whose score sets carry a reasoning text).
\<close>

theorem fallback_tie_selects_groq:
  assumes "has_reasoning (groq_scores g)" and "has_reasoning (gemini_scores m)"
    and "arxiv_id g \<noteq> arxiv_id m"
    and "adjudicate_try env (gemini_reply env (gemini_calls w + 1)) = Inl e"
    and "groq_total_score g = gemini_total_score m"
  shows "(\<forall>w1. gemini_calls w1 = gemini_calls w + 1 \<longrightarrow>
            make_final_decision env g m a b w1
              = (Inr (JObj [(''selected'', JStr ''groq''),
                            (''reasoning'',
                             JStr ''Selected based on higher score after debate error.''),
                            (''confidence'', JStr ''medium'')]),
                 w1\<lparr>gemini_calls := gemini_calls w + 2\<rparr>))
         \<and> (\<exists>r. select_final_paper env (g # gs) (m # ms) w = (Inr r, after_debate env g m w)
               \<and> final_decision r =
                   Some (JObj [(''selected'', JStr ''groq''),
                               (''reasoning'',
                                JStr ''Selected based on higher score after debate error.''),
                               (''confidence'', JStr ''medium'')])
               \<and> selected_paper r = GroqChoice g)"
proof -
  have p: "\<forall>w1. gemini_calls w1 = gemini_calls w + 1 \<longrightarrow>
            make_final_decision env g m a b w1
              = (Inr (JObj [(''selected'', JStr ''groq''),
                            (''reasoning'',
                             JStr ''Selected based on higher score after debate error.''),
                            (''confidence'', JStr ''medium'')]),
                 w1\<lparr>gemini_calls := gemini_calls w + 2\<rparr>)"
    using assms(4) assms(5)
    by (simp add: make_final_decision_eq score_fallback_def)
  have q: "\<exists>r. select_final_paper env (g # gs) (m # ms) w = (Inr r, after_debate env g m w)
               \<and> final_decision r =
                   Some (JObj [(''selected'', JStr ''groq''),
                               (''reasoning'',
                                JStr ''Selected based on higher score after debate error.''),
                               (''confidence'', JStr ''medium'')])
               \<and> selected_paper r = GroqChoice g"
    unfolding select_after_failed_adjudication [OF assms(1) assms(2) assms(3) assms(4)]
    by (simp add: assms(5) fallback_for_def)
  from p q show ?thesis by blast
qed

theorem fallback_tie_selects_groq_witness:
  "groq_total_score groq_a = gemini_total_score gemini_b_tied
   \<and> make_final_decision failing_env groq_a gemini_b_tied [] []
         (world0\<lparr>gemini_calls := 1\<rparr>)
       = (Inr (JObj [(''selected'', JStr ''groq''),
                     (''reasoning'',
                      JStr ''Selected based on higher score after debate error.''),
                     (''confidence'', JStr ''medium'')]),
          world0\<lparr>gemini_calls := 2\<rparr>)
   \<and> (\<exists>r. select_final_paper failing_env [groq_a] [gemini_b_tied] world0
           = (Inr r, after_debate failing_env groq_a gemini_b_tied world0)
        \<and> final_decision r =
            Some (JObj [(''selected'', JStr ''groq''),
                        (''reasoning'',
                         JStr ''Selected based on higher score after debate error.''),
                        (''confidence'', JStr ''medium'')])
        \<and> selected_paper r = GroqChoice groq_a)"
proof -
  have a1: "has_reasoning (groq_scores groq_a)" by code_simp
  have a2: "has_reasoning (gemini_scores gemini_b_tied)" by code_simp
  have a3: "arxiv_id groq_a \<noteq> arxiv_id gemini_b_tied" by code_simp
  have a4: "adjudicate_try failing_env (gemini_reply failing_env (gemini_calls world0 + 1))
              = Inl (APIError ''503 UNAVAILABLE'')" by code_simp
  have a5: "groq_total_score groq_a = gemini_total_score gemini_b_tied" by code_simp
  note t = fallback_tie_selects_groq [OF a1 a2 a3 a4 a5, of "[]" "[]" "[]" "[]"]
  have c: "gemini_calls (world0\<lparr>gemini_calls := 1\<rparr>) = gemini_calls world0 + 1"
    by (simp add: world0_def)
  have f: "make_final_decision failing_env groq_a gemini_b_tied [] []
             (world0\<lparr>gemini_calls := 1\<rparr>)
           = (Inr (JObj [(''selected'', JStr ''groq''),
                         (''reasoning'',
                          JStr ''Selected based on higher score after debate error.''),
                         (''confidence'', JStr ''medium'')]),
              world0\<lparr>gemini_calls := 2\<rparr>)"
    using t [THEN conjunct1, rule_format, OF c] by (simp add: world0_def)
  from f t [THEN conjunct2] a5 show ?thesis by blast
qed

subsection \<open>The fence\<close>

lemma split_from_not_Nil: "split_from sep cur s \<noteq> []"
proof (induction sep cur s rule: split_from.induct)
  case (1 sep cur s)
  then show ?case by (subst split_from.simps) auto
qed

lemma split_from_two:
  "sep \<noteq> [] \<Longrightarrow> py_contains sep s \<Longrightarrow> 2 \<le> length (split_from sep cur s)"
proof (induction sep cur s rule: split_from.induct)
  case (1 sep cur s)
  show ?case
  proof (cases s)
    case Nil
    with "1.prems" show ?thesis by simp
  next
    case (Cons c cs)
    show ?thesis
    proof (cases "prefix sep s")
      case True
      have "split_from sep cur s = cur # split_from sep [] (drop (length sep) s)"
        using True "1.prems"(1) Cons by (subst split_from.simps) simp
      moreover have "1 \<le> length (split_from sep [] (drop (length sep) s))"
        using split_from_not_Nil [of sep "[]" "drop (length sep) s"]
        by (cases "split_from sep [] (drop (length sep) s)") simp_all
      ultimately show ?thesis by simp
    next
      case False
      have eq: "split_from sep cur s = split_from sep (cur @ [hd s]) (tl s)"
        using False Cons by (subst split_from.simps) simp
      have "py_contains sep (tl s)"
        using "1.prems"(2) False Cons by simp
      with "1.IH"(2) [of ] False Cons "1.prems"(1) eq show ?thesis by simp
    qed
  qed
qed

lemma between_fences_eq:
  assumes "opening \<noteq> []" and "py_contains opening c"
  shows "between_fences opening c
           = Inr (py_strip (hd (split_from ''```'' [] (split_from opening [] c ! 1))))"
proof -
  have a: "1 < length (split_from opening [] c)"
    using split_from_two [OF assms, of "[]"] by simp
  have b: "0 < length (split_from ''```'' [] (split_from opening [] c ! 1))"
    using split_from_not_Nil [of "''```''" "[]" "split_from opening [] c ! 1"] by simp
  show ?thesis
    using a b assms(1)
    by (simp add: between_fences_def py_split_def py_index_def exc_bind_def hd_conv_nth)
qed

text \<open>On a text the block never raises.\<close>

lemma extract_json_Some: "extract_json (Some c) = Inr (fence_stripped c)"
  by (simp add: extract_json_def fence_stripped_def between_fences_eq)

subsection \<open>The rounds of the debate\<close>

text \<open>
  C9. For two top papers of different identifiers, their score sets carrying a reasoning
  text: when the call of round 1 fails (it
  raises, or its content is \<^verbatim>\<open>None\<close>), \<^verbatim>\<open>_groq_present_case\<close> returns the sentence
  \<^verbatim>\<open>I believe my paper is superior due to \<close> followed by the reasoning of its own
  candidate, having made that one call and no other; likewise round 2 with
  \<^verbatim>\<open>My paper is superior because \<close>. Whatever the rounds' calls do,
  \<^verbatim>\<open>select_final_paper\<close> goes through all three rounds: one Groq call and two Gemini calls
  are made and both arguments are recorded, the fallback sentence where the round failed.
\<close>

theorem argument_fallback_continues:
  assumes "has_reasoning (groq_scores g)" and "has_reasoning (gemini_scores m)"
    and "arxiv_id g \<noteq> arxiv_id m"
  shows "(\<forall>w1 e. exc_bind (groq_reply env (groq_calls w1)) strip_content = Inl e \<longrightarrow>
            groq_present_case env g m w1 =
              (Inr (''I believe my paper is superior due to '' @ reasoning_of (groq_scores g)),
               w1\<lparr>groq_calls := groq_calls w1 + 1\<rparr>))
         \<and> (\<forall>w1 a e. exc_bind (gemini_reply env (gemini_calls w1)) strip_content = Inl e \<longrightarrow>
            gemini_present_case env m g a w1 =
              (Inr (''My paper is superior because '' @ reasoning_of (gemini_scores m)),
               w1\<lparr>gemini_calls := gemini_calls w1 + 1\<rparr>))
         \<and> snd (select_final_paper env (g # gs) (m # ms) w) =
             w\<lparr>groq_calls := groq_calls w + 1,
               gemini_calls := gemini_calls w + 2,
               conversation_context :=
                 [(''Agent A (Groq)'', round1_argument env g w, 1),
                  (''Agent B (Gemini)'', round2_argument env m w, 2)]\<rparr>
         \<and> (\<forall>e. exc_bind (groq_reply env (groq_calls w)) strip_content = Inl e \<longrightarrow>
              round1_argument env g w =
                ''I believe my paper is superior due to '' @ reasoning_of (groq_scores g))
         \<and> (\<forall>e. exc_bind (gemini_reply env (gemini_calls w)) strip_content = Inl e \<longrightarrow>
              round2_argument env m w =
                ''My paper is superior because '' @ reasoning_of (gemini_scores m))"
proof -
  have p1: "\<forall>w1 e. exc_bind (groq_reply env (groq_calls w1)) strip_content = Inl e \<longrightarrow>
            groq_present_case env g m w1 =
              (Inr (''I believe my paper is superior due to '' @ reasoning_of (groq_scores g)),
               w1\<lparr>groq_calls := groq_calls w1 + 1\<rparr>)"
    by (simp add: groq_present_case_eq [OF assms(1)] round1_argument_def)
  have p2: "\<forall>w1 a e. exc_bind (gemini_reply env (gemini_calls w1)) strip_content = Inl e \<longrightarrow>
            gemini_present_case env m g a w1 =
              (Inr (''My paper is superior because '' @ reasoning_of (gemini_scores m)),
               w1\<lparr>gemini_calls := gemini_calls w1 + 1\<rparr>)"
    by (simp add: gemini_present_case_eq [OF assms(2)] round2_argument_def)
  have p3: "snd (select_final_paper env (g # gs) (m # ms) w) =
             w\<lparr>groq_calls := groq_calls w + 1,
               gemini_calls := gemini_calls w + 2,
               conversation_context :=
                 [(''Agent A (Groq)'', round1_argument env g w, 1),
                  (''Agent B (Gemini)'', round2_argument env m w, 2)]\<rparr>"
    unfolding select_final_paper_debate [OF assms]
    by (simp add: after_debate_def split: sum.splits)
  have p4: "\<forall>e. exc_bind (groq_reply env (groq_calls w)) strip_content = Inl e \<longrightarrow>
              round1_argument env g w =
                ''I believe my paper is superior due to '' @ reasoning_of (groq_scores g)"
    by (simp add: round1_argument_def)
  have p5: "\<forall>e. exc_bind (gemini_reply env (gemini_calls w)) strip_content = Inl e \<longrightarrow>
              round2_argument env m w =
                ''My paper is superior because '' @ reasoning_of (gemini_scores m)"
    by (simp add: round2_argument_def)
  from p1 p2 p3 p4 p5 show ?thesis by blast
qed

theorem argument_fallback_continues_witness:
  "groq_present_case failing_env groq_a gemini_b world0 =
     (Inr ''I believe my paper is superior due to solid method'',
      world0\<lparr>groq_calls := 1\<rparr>)
   \<and> gemini_present_case failing_env gemini_b groq_a
         ''I believe my paper is superior due to solid method'' (world0\<lparr>groq_calls := 1\<rparr>) =
     (Inr ''My paper is superior because clear benchmark'',
      world0\<lparr>groq_calls := 1, gemini_calls := 1\<rparr>)
   \<and> snd (select_final_paper failing_env [groq_a] [gemini_b] world0) =
       world0\<lparr>groq_calls := 1,
               gemini_calls := 2,
               conversation_context :=
                 [(''Agent A (Groq)'', ''I believe my paper is superior due to solid method'', 1),
                  (''Agent B (Gemini)'', ''My paper is superior because clear benchmark'', 2)]\<rparr>"
proof -
  have a1: "has_reasoning (groq_scores groq_a)" by code_simp
  have a2: "has_reasoning (gemini_scores gemini_b)" by code_simp
  have a3: "arxiv_id groq_a \<noteq> arxiv_id gemini_b" by code_simp
  note t = argument_fallback_continues [OF a1 a2 a3, of failing_env "[]" "[]" world0]
  have f1: "exc_bind (groq_reply failing_env (groq_calls world0)) strip_content
              = Inl (APIError ''Connection error.'')" by code_simp
  have f2: "exc_bind (gemini_reply failing_env (gemini_calls (world0\<lparr>groq_calls := 1\<rparr>)))
              strip_content = Inl (APIError ''503 UNAVAILABLE'')" by code_simp
  have f3: "exc_bind (gemini_reply failing_env (gemini_calls world0)) strip_content
              = Inl (APIError ''503 UNAVAILABLE'')" by code_simp
  have r1: "reasoning_of (groq_scores groq_a) = ''solid method''" by code_simp
  have r2: "reasoning_of (gemini_scores gemini_b) = ''clear benchmark''" by code_simp
  have c1: "groq_present_case failing_env groq_a gemini_b world0 =
     (Inr ''I believe my paper is superior due to solid method'',
      world0\<lparr>groq_calls := 1\<rparr>)"
    using t [THEN conjunct1, rule_format, OF f1] r1 by (simp add: world0_def)
  have c2: "gemini_present_case failing_env gemini_b groq_a
         ''I believe my paper is superior due to solid method'' (world0\<lparr>groq_calls := 1\<rparr>) =
     (Inr ''My paper is superior because clear benchmark'',
      world0\<lparr>groq_calls := 1, gemini_calls := 1\<rparr>)"
    using t [THEN conjunct2, THEN conjunct1, rule_format, OF f2] r2 by (simp add: world0_def)
  have c3: "snd (select_final_paper failing_env [groq_a] [gemini_b] world0) =
       world0\<lparr>groq_calls := 1,
               gemini_calls := 2,
               conversation_context :=
                 [(''Agent A (Groq)'', ''I believe my paper is superior due to solid method'', 1),
                  (''Agent B (Gemini)'', ''My paper is superior because clear benchmark'', 2)]\<rparr>"
    using t [THEN conjunct2, THEN conjunct2, THEN conjunct1]
      t [THEN conjunct2, THEN conjunct2, THEN conjunct2, THEN conjunct1, rule_format, OF f1]
      t [THEN conjunct2, THEN conjunct2, THEN conjunct2, THEN conjunct2, rule_format, OF f3]
      r1 r2
    by (simp add: world0_def)
  from c1 c2 c3 show ?thesis by blast
qed

subsection \<open>From the decision to the paper\<close>

text \<open>
  C10. After a debate (two top papers of different identifiers, their score sets carrying
  a reasoning text) whose decision can be read (it has a \<^verbatim>\<open>selected\<close> entry and a
  \<^verbatim>\<open>reasoning\<close> that can be sliced), the paper returned is Groq's top paper exactly when
  \<^verbatim>\<open>selected\<close> is the string \<^verbatim>\<open>groq\<close>; for every other value, \<^verbatim>\<open>gemini\<close> or not, it is
  Gemini's top paper.
\<close>

theorem only_groq_label_selects_groq:
  assumes "has_reasoning (groq_scores g)" and "has_reasoning (gemini_scores m)"
    and "arxiv_id g \<noteq> arxiv_id m"
    and "py_getitem (round3_decision env g m w) ''selected'' = Inr label"
    and "exc_bind (py_getitem (round3_decision env g m w) ''reasoning'')
           (\<lambda>r. py_slice_to r 200) = Inr shown"
  shows "\<exists>r. select_final_paper env (g # gs) (m # ms) w = (Inr r, after_debate env g m w)
           \<and> selected_paper r =
               (if label = JStr ''groq'' then GroqChoice g else GeminiChoice m)
           \<and> (selected_paper r = GroqChoice g \<longleftrightarrow> label = JStr ''groq'')
           \<and> (selected_paper r = GeminiChoice m \<longleftrightarrow> label \<noteq> JStr ''groq'')"
  unfolding select_final_paper_debate [OF assms(1) assms(2) assms(3)]
  by (simp add: assms(4) assms(5))

theorem only_groq_label_selects_groq_witness:
  "(\<exists>r. select_final_paper (talking_env (Some (fenced (decision_text ''selected'' ''groq''))))
           [groq_a] [gemini_b] world0
         = (Inr r, after_debate (talking_env (Some (fenced (decision_text ''selected'' ''groq''))))
                     groq_a gemini_b world0)
        \<and> selected_paper r = GroqChoice groq_a)
   \<and> (\<exists>r. select_final_paper (talking_env (Some (decision_text ''selected'' ''gemini'')))
           [groq_a] [gemini_b] world0
         = (Inr r, after_debate (talking_env (Some (decision_text ''selected'' ''gemini'')))
                     groq_a gemini_b world0)
        \<and> selected_paper r = GeminiChoice gemini_b)
   \<and> (\<exists>r. select_final_paper (talking_env (Some (decision_text ''selected'' ''Groq'')))
           [groq_a] [gemini_b] world0
         = (Inr r, after_debate (talking_env (Some (decision_text ''selected'' ''Groq'')))
                     groq_a gemini_b world0)
        \<and> selected_paper r = GeminiChoice gemini_b)"
proof -
  have a1: "has_reasoning (groq_scores groq_a)" by code_simp
  have a2: "has_reasoning (gemini_scores gemini_b)" by code_simp
  have a3: "arxiv_id groq_a \<noteq> arxiv_id gemini_b" by code_simp
  have d1: "round3_decision (talking_env (Some (fenced (decision_text ''selected'' ''groq''))))
              groq_a gemini_b world0 = decision_json ''selected'' ''groq''"
    by code_simp
  have d2: "round3_decision (talking_env (Some (decision_text ''selected'' ''gemini'')))
              groq_a gemini_b world0 = decision_json ''selected'' ''gemini''"
    by code_simp
  have d3: "round3_decision (talking_env (Some (decision_text ''selected'' ''Groq'')))
              groq_a gemini_b world0 = decision_json ''selected'' ''Groq''"
    by code_simp
  have s: "\<And>label. py_getitem (decision_json ''selected'' label) ''selected'' = Inr (JStr label)"
    by (simp add: decision_json_def)
  have r: "\<And>label. exc_bind (py_getitem (decision_json ''selected'' label) ''reasoning'')
                       (\<lambda>r. py_slice_to r 200) = Inr (JStr ''Paper A is easier to build.'')"
    by (simp add: decision_json_def exc_bind_def)
  from only_groq_label_selects_groq [OF a1 a2 a3, of _ world0 "JStr ''groq''" _ "[]" "[]",
         OF s [of "''groq''", folded d1] r [of "''groq''", folded d1]]
  have x: "\<exists>r. select_final_paper (talking_env (Some (fenced (decision_text ''selected'' ''groq''))))
           [groq_a] [gemini_b] world0
         = (Inr r, after_debate (talking_env (Some (fenced (decision_text ''selected'' ''groq''))))
                     groq_a gemini_b world0)
        \<and> selected_paper r = GroqChoice groq_a"
    by auto
  from only_groq_label_selects_groq [OF a1 a2 a3, of _ world0 "JStr ''gemini''" _ "[]" "[]",
         OF s [of "''gemini''", folded d2] r [of "''gemini''", folded d2]]
  have y: "\<exists>r. select_final_paper (talking_env (Some (decision_text ''selected'' ''gemini'')))
           [groq_a] [gemini_b] world0
         = (Inr r, after_debate (talking_env (Some (decision_text ''selected'' ''gemini'')))
                     groq_a gemini_b world0)
        \<and> selected_paper r = GeminiChoice gemini_b"
    by auto
  from only_groq_label_selects_groq [OF a1 a2 a3, of _ world0 "JStr ''Groq''" _ "[]" "[]",
         OF s [of "''Groq''", folded d3] r [of "''Groq''", folded d3]]
  have z: "\<exists>r. select_final_paper (talking_env (Some (decision_text ''selected'' ''Groq'')))
           [groq_a] [gemini_b] world0
         = (Inr r, after_debate (talking_env (Some (decision_text ''selected'' ''Groq'')))
                     groq_a gemini_b world0)
        \<and> selected_paper r = GeminiChoice gemini_b"
    by auto
  from x y z show ?thesis by blast
qed

subsection \<open>The adjudication\<close>

text \<open>
  C1 fails as stated: an arbiter text that is valid JSON is returned as parsed, with no
  check that \<^verbatim>\<open>selected\<close> is \<^verbatim>\<open>groq\<close> or \<^verbatim>\<open>gemini\<close>. The arbiter answering with the
  label \<^verbatim>\<open>Groq\<close>, \<^verbatim>\<open>_make_final_decision\<close> returns a dict that is neither a Decision in the
  words of the specification nor the fallback of the score comparison.
\<close>

theorem adjudication_label_unchecked_counterexample:
  "make_final_decision (talking_env (Some (decision_text ''selected'' ''Groq'')))
     groq_a gemini_b ''Paper A is easier to build.'' ''Paper B teaches more.''
     (world0\<lparr>groq_calls := 1, gemini_calls := 1\<rparr>)
   = (Inr (JObj [(''selected'', JStr ''Groq''),
                 (''reasoning'', JStr ''Paper A is easier to build.''),
                 (''confidence'', JStr ''high'')]),
      world0\<lparr>groq_calls := 1, gemini_calls := 2\<rparr>)
   \<and> \<not> spec_decision (JObj [(''selected'', JStr ''Groq''),
                             (''reasoning'', JStr ''Paper A is easier to build.''),
                             (''confidence'', JStr ''high'')])
   \<and> JObj [(''selected'', JStr ''Groq''),
            (''reasoning'', JStr ''Paper A is easier to build.''),
            (''confidence'', JStr ''high'')] \<noteq> score_fallback groq_a gemini_b"
proof -
  have a: "make_final_decision (talking_env (Some (decision_text ''selected'' ''Groq'')))
     groq_a gemini_b ''Paper A is easier to build.'' ''Paper B teaches more.''
     (world0\<lparr>groq_calls := 1, gemini_calls := 1\<rparr>)
   = (Inr (JObj [(''selected'', JStr ''Groq''),
                 (''reasoning'', JStr ''Paper A is easier to build.''),
                 (''confidence'', JStr ''high'')]),
      world0\<lparr>groq_calls := 1, gemini_calls := 2\<rparr>)"
    by code_simp
  have b: "\<not> spec_decision (JObj [(''selected'', JStr ''Groq''),
                             (''reasoning'', JStr ''Paper A is easier to build.''),
                             (''confidence'', JStr ''high'')])"
    by (simp add: spec_decision_def)
  have c: "JObj [(''selected'', JStr ''Groq''),
            (''reasoning'', JStr ''Paper A is easier to build.''),
            (''confidence'', JStr ''high'')] \<noteq> score_fallback groq_a gemini_b"
    by (simp add: score_fallback_def)
  from a b c show ?thesis by blast
qed

lemma adjudicate_try_raised: "adjudicate_try env (Inl e) = Inl e"
  by (simp add: adjudicate_try_def exc_bind_def)

lemma adjudicate_try_None:
  "adjudicate_try env (Inr None) = Inl (TypeError ''argument of type NoneType is not iterable'')"
  by (simp add: adjudicate_try_def exc_bind_def extract_json_def)

lemma adjudicate_try_text:
  "adjudicate_try env (Inr (Some text)) = json_loads env (fence_stripped text)"
  by (simp add: adjudicate_try_def exc_bind_def extract_json_Some)

text \<open>
  C1 as amended. \<^verbatim>\<open>_make_final_decision\<close> never raises and makes exactly one call. When
  the call raises, when the text of the reply is \<^verbatim>\<open>None\<close>, and when \<^verbatim>\<open>json.loads\<close> raises
  on the text the fence leaves, it returns the fallback of the score comparison. When
  \<^verbatim>\<open>json.loads\<close> gives a dict with a \<^verbatim>\<open>selected\<close> entry and a \<^verbatim>\<open>reasoning\<close> text, that dict
  is returned as it is, whatever the value of \<^verbatim>\<open>selected\<close> and whatever other keys it
  has.
\<close>

theorem adjudication_parse_or_fallback:
  "(\<exists>d. make_final_decision env g m a b w = (Inr d, w\<lparr>gemini_calls := gemini_calls w + 1\<rparr>))
   \<and> (\<forall>e. gemini_reply env (gemini_calls w) = Inl e \<longrightarrow>
         make_final_decision env g m a b w
           = (Inr (score_fallback g m), w\<lparr>gemini_calls := gemini_calls w + 1\<rparr>))
   \<and> (gemini_reply env (gemini_calls w) = Inr None \<longrightarrow>
         make_final_decision env g m a b w
           = (Inr (score_fallback g m), w\<lparr>gemini_calls := gemini_calls w + 1\<rparr>))
   \<and> (\<forall>text e. gemini_reply env (gemini_calls w) = Inr (Some text)
                 \<and> json_loads env (fence_stripped text) = Inl e \<longrightarrow>
         make_final_decision env g m a b w
           = (Inr (score_fallback g m), w\<lparr>gemini_calls := gemini_calls w + 1\<rparr>))
   \<and> (\<forall>text kvs label r. gemini_reply env (gemini_calls w) = Inr (Some text)
                 \<and> json_loads env (fence_stripped text) = Inr (JObj kvs)
                 \<and> map_of kvs ''selected'' = Some label
                 \<and> map_of kvs ''reasoning'' = Some (JStr r) \<longrightarrow>
         make_final_decision env g m a b w
           = (Inr (JObj kvs), w\<lparr>gemini_calls := gemini_calls w + 1\<rparr>))"
  by (simp add: make_final_decision_eq adjudicate_try_raised adjudicate_try_None
        adjudicate_try_text)
theorem adjudication_parse_or_fallback_witness:
  "make_final_decision failing_env groq_a gemini_b [] [] world0
     = (Inr (JObj [(''selected'', JStr ''groq''),
                   (''reasoning'', JStr ''Selected based on higher score after debate error.''),
                   (''confidence'', JStr ''medium'')]),
        world0\<lparr>gemini_calls := 1\<rparr>)
   \<and> make_final_decision (talking_env None) groq_b_low gemini_a_high [] []
         (world0\<lparr>gemini_calls := 1\<rparr>)
     = (Inr (JObj [(''selected'', JStr ''gemini''),
                   (''reasoning'', JStr ''Selected based on higher score after debate error.''),
                   (''confidence'', JStr ''medium'')]),
        world0\<lparr>gemini_calls := 2\<rparr>)
   \<and> make_final_decision (talking_env (Some ''I cannot decide.'')) groq_a gemini_b [] []
         (world0\<lparr>gemini_calls := 1\<rparr>)
     = (Inr (JObj [(''selected'', JStr ''groq''),
                   (''reasoning'', JStr ''Selected based on higher score after debate error.''),
                   (''confidence'', JStr ''medium'')]),
        world0\<lparr>gemini_calls := 2\<rparr>)
   \<and> make_final_decision (talking_env (Some (fenced (decision_text ''selected'' ''gemini''))))
         groq_a gemini_b [] [] (world0\<lparr>gemini_calls := 1\<rparr>)
     = (Inr (JObj [(''selected'', JStr ''gemini''),
                   (''reasoning'', JStr ''Paper A is easier to build.''),
                   (''confidence'', JStr ''high'')]),
        world0\<lparr>gemini_calls := 2\<rparr>)"
proof -
  have h1: "gemini_reply failing_env (gemini_calls world0) = Inl (APIError ''503 UNAVAILABLE'')"
    by code_simp
  have f1: "score_fallback groq_a gemini_b =
              JObj [(''selected'', JStr ''groq''),
                    (''reasoning'', JStr ''Selected based on higher score after debate error.''),
                    (''confidence'', JStr ''medium'')]"
    by code_simp
  have c1: "make_final_decision failing_env groq_a gemini_b [] [] world0
     = (Inr (JObj [(''selected'', JStr ''groq''),
                   (''reasoning'', JStr ''Selected based on higher score after debate error.''),
                   (''confidence'', JStr ''medium'')]),
        world0\<lparr>gemini_calls := 1\<rparr>)"
    using adjudication_parse_or_fallback [of failing_env groq_a gemini_b "[]" "[]" world0,
            THEN conjunct2, THEN conjunct1, rule_format, OF h1] f1
    by (simp add: world0_def)
  have h2: "gemini_reply (talking_env None) (gemini_calls (world0\<lparr>gemini_calls := 1\<rparr>))
              = Inr None"
    by code_simp
  have f2: "score_fallback groq_b_low gemini_a_high =
              JObj [(''selected'', JStr ''gemini''),
                    (''reasoning'', JStr ''Selected based on higher score after debate error.''),
                    (''confidence'', JStr ''medium'')]"
    by code_simp
  have c2: "make_final_decision (talking_env None) groq_b_low gemini_a_high [] []
         (world0\<lparr>gemini_calls := 1\<rparr>)
     = (Inr (JObj [(''selected'', JStr ''gemini''),
                   (''reasoning'', JStr ''Selected based on higher score after debate error.''),
                   (''confidence'', JStr ''medium'')]),
        world0\<lparr>gemini_calls := 2\<rparr>)"
    using adjudication_parse_or_fallback [of "talking_env None" groq_b_low gemini_a_high
            "[]" "[]" "world0\<lparr>gemini_calls := 1\<rparr>",
            THEN conjunct2, THEN conjunct2, THEN conjunct1, rule_format, OF h2] f2
    by (simp add: world0_def)
  have h3: "gemini_reply (talking_env (Some ''I cannot decide.''))
              (gemini_calls (world0\<lparr>gemini_calls := 1\<rparr>)) = Inr (Some ''I cannot decide.'')
            \<and> json_loads (talking_env (Some ''I cannot decide.''))
                (fence_stripped ''I cannot decide.'')
              = Inl (JSONDecodeError ''Expecting value: line 1 column 1 (char 0)'')"
    by code_simp
  have c3: "make_final_decision (talking_env (Some ''I cannot decide.'')) groq_a gemini_b [] []
         (world0\<lparr>gemini_calls := 1\<rparr>)
     = (Inr (JObj [(''selected'', JStr ''groq''),
                   (''reasoning'', JStr ''Selected based on higher score after debate error.''),
                   (''confidence'', JStr ''medium'')]),
        world0\<lparr>gemini_calls := 2\<rparr>)"
    using adjudication_parse_or_fallback [of "talking_env (Some ''I cannot decide.'')"
            groq_a gemini_b "[]" "[]" "world0\<lparr>gemini_calls := 1\<rparr>",
            THEN conjunct2, THEN conjunct2, THEN conjunct2, THEN conjunct1, rule_format, OF h3] f1
    by (simp add: world0_def)
  have h4: "gemini_reply (talking_env (Some (fenced (decision_text ''selected'' ''gemini''))))
              (gemini_calls (world0\<lparr>gemini_calls := 1\<rparr>))
              = Inr (Some (fenced (decision_text ''selected'' ''gemini'')))
            \<and> json_loads (talking_env (Some (fenced (decision_text ''selected'' ''gemini''))))
                (fence_stripped (fenced (decision_text ''selected'' ''gemini'')))
              = Inr (JObj [(''selected'', JStr ''gemini''),
                           (''reasoning'', JStr ''Paper A is easier to build.''),
                           (''confidence'', JStr ''high'')])
            \<and> map_of [(''selected'', JStr ''gemini''),
                       (''reasoning'', JStr ''Paper A is easier to build.''),
                       (''confidence'', JStr ''high'')] ''selected'' = Some (JStr ''gemini'')
            \<and> map_of [(''selected'', JStr ''gemini''),
                       (''reasoning'', JStr ''Paper A is easier to build.''),
                       (''confidence'', JStr ''high'')] ''reasoning''
              = Some (JStr ''Paper A is easier to build.'')"
    by code_simp
  have c4: "make_final_decision (talking_env (Some (fenced (decision_text ''selected'' ''gemini''))))
         groq_a gemini_b [] [] (world0\<lparr>gemini_calls := 1\<rparr>)
     = (Inr (JObj [(''selected'', JStr ''gemini''),
                   (''reasoning'', JStr ''Paper A is easier to build.''),
                   (''confidence'', JStr ''high'')]),
        world0\<lparr>gemini_calls := 2\<rparr>)"
    using adjudication_parse_or_fallback
            [of "talking_env (Some (fenced (decision_text ''selected'' ''gemini'')))"
            groq_a gemini_b "[]" "[]" "world0\<lparr>gemini_calls := 1\<rparr>",
            THEN conjunct2, THEN conjunct2, THEN conjunct2, THEN conjunct2, rule_format, OF h4]
    by (simp add: world0_def)
  from c1 c2 c3 c4 show ?thesis by blast
qed

text \<open>
  C4 does not hold of the code. The arbiter's reply is read outside the \<^verbatim>\<open>try\<close>: when it
  parses to a dict that has no \<^verbatim>\<open>selected\<close> key (here the arbiter named the key
  \<^verbatim>\<open>winner\<close>), \<^verbatim>\<open>final_decision['selected']\<close> at line 112 raises \<^verbatim>\<open>KeyError\<close> after all
  three rounds have run, and \<^verbatim>\<open>select_final_paper\<close> returns nothing.
\<close>

theorem select_raises_on_unshaped_decision:
  "select_final_paper (talking_env (Some (decision_text ''winner'' ''groq'')))
     [groq_a] [gemini_b] world0
   = (Inl (KeyError ''selected''),
      world0\<lparr>groq_calls := 1,
              gemini_calls := 2,
              conversation_context :=
                [(''Agent A (Groq)'', ''Paper A is easier to build.'', 1),
                 (''Agent B (Gemini)'', ''Paper B teaches more.'', 2)]\<rparr>)"
  by code_simp

end
